theory Spec2Isabelle
  imports Complex_Main "HOL-Library.Sublist"
begin

section \<open>Go values used by exchange/bidder_validate_bids.go\<close>

text \<open>
  A Go \<^verbatim>\<open>float64\<close> is either a NaN, an infinity or a finite number. Only the
  comparison with \<^verbatim>\<open>0.0\<close> is used by the code, so a finite value is kept as the
  real number it denotes (both zeros denote 0). Every ordered comparison with a NaN
  operand is false.
\<close>

datatype float64 = NaN | PosInf | NegInf | Finite real

fun float64_le_zero :: "float64 \<Rightarrow> bool" where
  "float64_le_zero NaN = False"
| "float64_le_zero PosInf = False"
| "float64_le_zero NegInf = True"
| "float64_le_zero (Finite r) = (r \<le> 0)"

fun float64_gt_zero :: "float64 \<Rightarrow> bool" where
  "float64_gt_zero NaN = False"
| "float64_gt_zero PosInf = True"
| "float64_gt_zero NegInf = False"
| "float64_gt_zero (Finite r) = (0 < r)"

text \<open>
  A Go \<^verbatim>\<open>error\<close> value is identified with the text its \<^verbatim>\<open>Error()\<close> method
  returns; the nil error is \<open>None\<close> of \<open>error option\<close>, and a \<^verbatim>\<open>[]error\<close> is a list
  of such interface values. A run-time panic is an outcome of its own: it is not an
  error value and it unwinds the caller.
\<close>

datatype error = Error string

datatype panic = NilPointerDereference

datatype 'a outcome = Panic panic | Return 'a

text \<open>
  A pointer is \<open>None\<close> when nil and \<open>Some\<close> of the object it points to otherwise.
  The structs are declared outside this file; the fields the code reads are listed and
  every other field is the record's extension part. A slice is the list of its
  elements, so a nil slice and an empty slice are both the empty list; the code only
  takes their length and ranges over them.
\<close>

record openrtb_Bid =
  ID :: string
  ImpID :: string
  Price :: float64
  CrID :: string

record 'b PBSOrtbBid =
  Bid :: "'b openrtb_Bid_scheme option"

record ('b, 'p) PBSOrtbSeatBid =
  Bids :: "('b, 'p) PBSOrtbBid_scheme option list"
  Currency :: string

record openrtb_BidRequest =
  Cur :: "string list"

text \<open>
  Two library functions are called: \<^verbatim>\<open>currency.ParseISO\<close> of golang.org/x/text and
  \<^verbatim>\<open>strings.ToUpper\<close>. Neither belongs to the repository, so both are parameters
  of the model. A \<^verbatim>\<open>currency.Unit\<close> is identified with the code its \<^verbatim>\<open>String()\<close>
  method returns.
\<close>

datatype currency_Unit = Unit (Unit_String: string)

record libs =
  currency_ParseISO :: "string \<Rightarrow> error + currency_Unit"
  strings_ToUpper :: "string \<Rightarrow> string"

fun strings_Join :: "string list \<Rightarrow> string \<Rightarrow> string" where
  "strings_Join [] sep = []"
| "strings_Join [a] sep = a"
| "strings_Join (a # b # rest) sep = a @ sep @ strings_Join (b # rest) sep"

section \<open>validateCurrency\<close>

text \<open>The loop over the accepted currencies, leaving at the first match.\<close>

fun currencyAllowed_loop :: "libs \<Rightarrow> currency_Unit \<Rightarrow> string list \<Rightarrow> bool" where
  "currencyAllowed_loop L currencyUnit [] = False"
| "currencyAllowed_loop L currencyUnit (allowedCurrency # rest) =
     (if strings_ToUpper L allowedCurrency = Unit_String currencyUnit then True
      else currencyAllowed_loop L currencyUnit rest)"

text \<open>
  The format of the rejection is
  \<^verbatim>\<open>Bid currency is not allowed. Was '%s', wants: ['%s']\<close>, filled with the unit's
  code and with the accepted codes joined by \<^verbatim>\<open>', '\<close>.
\<close>

definition currency_not_allowed :: "string \<Rightarrow> string list \<Rightarrow> error" where
  \<open>currency_not_allowed code requestAllowedCurrencies =
     Error (''Bid currency is not allowed. Was '' @ [CHR 0x27] @ code @
            ''', wants: ['' @ [CHR 0x27] @
            strings_Join requestAllowedCurrencies (''', '' @ [CHR 0x27]) @ ''']'')\<close>

definition validateCurrency :: "libs \<Rightarrow> string list \<Rightarrow> string \<Rightarrow> error option" where
  "validateCurrency L requestAllowedCurrencies bidCurrency =
     (let defaultCurrency = ''USD'';
          bidCurrency' = (if bidCurrency = [] then defaultCurrency else bidCurrency)
      in case currency_ParseISO L bidCurrency' of
           Inl cerr \<Rightarrow> Some cerr
         | Inr currencyUnit \<Rightarrow>
             (let requestAllowedCurrencies' =
                    (if length requestAllowedCurrencies = 0 then [defaultCurrency]
                     else requestAllowedCurrencies);
                  currencyAllowed = currencyAllowed_loop L currencyUnit requestAllowedCurrencies'
              in if currencyAllowed = False
                 then Some (currency_not_allowed (Unit_String currencyUnit) requestAllowedCurrencies')
                 else None))"

section \<open>validateBid\<close>

text \<open>
  The argument is a pointer: reading \<^verbatim>\<open>bid.Bid\<close> through a nil pointer panics. The
  three formats with a verb are \<^verbatim>\<open>Bid "%s" missing required field 'impid'\<close>,
  \<^verbatim>\<open>Bid "%s" does not contain a positive 'price'\<close> and
  \<^verbatim>\<open>Bid "%s" missing creative ID\<close>, each filled with the bid's ID.
\<close>

definition validateBid :: "('b, 'p) PBSOrtbBid_scheme option \<Rightarrow> (bool \<times> error option) outcome" where
  \<open>validateBid bid =
     (case bid of
        None \<Rightarrow> Panic NilPointerDereference
      | Some pb \<Rightarrow>
          (case Bid pb of
             None \<Rightarrow> Return (False, Some (Error ''Empty bid object submitted.''))
           | Some b \<Rightarrow>
               if ID b = [] then
                 Return (False, Some (Error (''Bid missing required field 'id'' @ [CHR 0x27])))
               else if ImpID b = [] then
                 Return (False, Some (Error (''Bid "'' @ ID b @
                   ''" missing required field 'impid'' @ [CHR 0x27])))
               else if float64_le_zero (Price b) then
                 Return (False, Some (Error (''Bid "'' @ ID b @
                   ''" does not contain a positive 'price'' @ [CHR 0x27])))
               else if CrID b = [] then
                 Return (False, Some (Error (''Bid "'' @ ID b @ ''" missing creative ID'')))
               else Return (True, None)))\<close>

section \<open>removeInvalidBids\<close>

text \<open>
  The loop over the seat bid's bids, with the two slices it appends to. A panic of
  \<open>validateBid\<close> leaves the loop and the function.
\<close>

fun validBids_loop ::
  "('b, 'p) PBSOrtbBid_scheme option list \<Rightarrow> ('b, 'p) PBSOrtbBid_scheme option list \<Rightarrow>
   error option list \<Rightarrow>
   (('b, 'p) PBSOrtbBid_scheme option list \<times> error option list) outcome" where
  "validBids_loop [] validBids errs = Return (validBids, errs)"
| "validBids_loop (bid # rest) validBids errs =
     (case validateBid bid of
        Panic p \<Rightarrow> Panic p
      | Return (ok, berr) \<Rightarrow>
          if ok then validBids_loop rest (validBids @ [bid]) errs
          else validBids_loop rest validBids (errs @ [berr]))"

text \<open>
  Both arguments are pointers. The seat bid is updated in place, so the function
  returns the seat bid as it is after the call together with the returned errors. The
  request is only read (its \<^verbatim>\<open>Cur\<close> field), and read only once the seat bid is
  known to have bids.
\<close>

definition removeInvalidBids ::
  "libs \<Rightarrow> 'r openrtb_BidRequest_scheme option \<Rightarrow> ('b, 'p, 's) PBSOrtbSeatBid_scheme option \<Rightarrow>
   (('b, 'p, 's) PBSOrtbSeatBid_scheme option \<times> error option list) outcome" where
  "removeInvalidBids L request seatBid =
     (case seatBid of
        None \<Rightarrow> Return (None, [])
      | Some sb \<Rightarrow>
          if length (Bids sb) = 0 then Return (Some sb, [])
          else
            (case request of
               None \<Rightarrow> Panic NilPointerDereference
             | Some req \<Rightarrow>
                 (case validateCurrency L (Cur req) (Currency sb) of
                    Some cerr \<Rightarrow> Return (Some (sb\<lparr>Bids := []\<rparr>), [Some cerr])
                  | None \<Rightarrow>
                      (case validBids_loop (Bids sb) [] [] of
                         Panic p \<Rightarrow> Panic p
                       | Return (validBids, errs) \<Rightarrow>
                           Return (Some (sb\<lparr>Bids := validBids\<rparr>), errs)))))"

section \<open>validatedBidder\<close>

text \<open>
  \<^verbatim>\<open>AdaptedBidder\<close> is an interface with the one method \<^verbatim>\<open>RequestBid\<close>. An
  implementation is any function of the five arguments; it receives the request by
  pointer, so besides its two results it hands back the request as it left it. A nil
  interface value behaves as an implementation that panics.
\<close>

type_synonym ('c, 'v, 'r, 'b, 'p, 's) AdaptedBidder =
  "'c \<Rightarrow> 'r openrtb_BidRequest_scheme option \<Rightarrow> string \<Rightarrow> float64 \<Rightarrow> 'v \<Rightarrow>
   ('r openrtb_BidRequest_scheme option \<times> ('b, 'p, 's) PBSOrtbSeatBid_scheme option \<times>
    error option list) outcome"

record ('c, 'v, 'r, 'b, 'p, 's) validatedBidder =
  bidder :: "('c, 'v, 'r, 'b, 'p, 's) AdaptedBidder"

definition ensureValidBids ::
  "('c, 'v, 'r, 'b, 'p, 's) AdaptedBidder \<Rightarrow> ('c, 'v, 'r, 'b, 'p, 's) validatedBidder" where
  "ensureValidBids b = \<lparr>bidder = b\<rparr>"

definition RequestBid ::
  "libs \<Rightarrow> ('c, 'v, 'r, 'b, 'p, 's) validatedBidder \<Rightarrow> ('c, 'v, 'r, 'b, 'p, 's) AdaptedBidder" where
  "RequestBid L v ctx request name bidAdjustment conversions =
     (case bidder v ctx request name bidAdjustment conversions of
        Panic p \<Rightarrow> Panic p
      | Return (request', seatBid, errs) \<Rightarrow>
          (case removeInvalidBids L request' seatBid of
             Panic p \<Rightarrow> Panic p
           | Return (seatBid', validationErrors) \<Rightarrow>
               Return (request', seatBid',
                 if length validationErrors > 0 then errs @ validationErrors else errs)))"

section \<open>Notions used to state the properties\<close>

text \<open>
  What \<open>validateBid\<close> says about one element of the bid list: whether it accepts it,
  and the error it returns for it.
\<close>

definition accepted :: "('b, 'p) PBSOrtbBid_scheme option \<Rightarrow> bool" where
  "accepted bid = (case validateBid bid of Return (ok, berr) \<Rightarrow> ok | Panic p \<Rightarrow> False)"

definition rejection :: "('b, 'p) PBSOrtbBid_scheme option \<Rightarrow> error option" where
  "rejection bid = (case validateBid bid of Return (ok, berr) \<Rightarrow> berr | Panic p \<Rightarrow> None)"

text \<open>
  A bid with every required field: a payload, an identifier, an impression identifier,
  a price above zero and a creative identifier.
\<close>

definition complete_bid :: "('b, 'p) PBSOrtbBid_scheme option \<Rightarrow> bool" where
  "complete_bid bid =
     (case bid of
        None \<Rightarrow> False
      | Some pb \<Rightarrow>
          (case Bid pb of
             None \<Rightarrow> False
           | Some b \<Rightarrow> ID b \<noteq> [] \<and> ImpID b \<noteq> [] \<and> float64_gt_zero (Price b) \<and> CrID b \<noteq> []))"


section \<open>An instance of the library functions\<close>

text \<open>
  To run the model on concrete requests the two library functions need values. On
  ASCII text \<^verbatim>\<open>strings.ToUpper\<close> maps the letters a to z to A to Z and keeps every
  other byte. \<^verbatim>\<open>currency.ParseISO\<close> accepts three ASCII letters in either case that
  name a currency of its table, of which four entries are listed here, and yields
  the unit of the upper-case code.
\<close>

definition ascii_upper :: "char \<Rightarrow> char" where
  "ascii_upper c =
     (case map_of (zip ''abcdefghijklmnopqrstuvwxyz'' ''ABCDEFGHIJKLMNOPQRSTUVWXYZ'') c of
        Some u \<Rightarrow> u
      | None \<Rightarrow> c)"

definition ascii_letter :: "char \<Rightarrow> bool" where
  "ascii_letter c =
     (c \<in> set (''abcdefghijklmnopqrstuvwxyz'' @ ''ABCDEFGHIJKLMNOPQRSTUVWXYZ''))"

definition sample_ParseISO :: "string \<Rightarrow> error + currency_Unit" where
  "sample_ParseISO s =
     (if length s = 3 \<and> list_all ascii_letter s then
        (let key = map ascii_upper s in
         if key \<in> set [''USD'', ''EUR'', ''GBP'', ''JPY''] then Inr (Unit key)
         else Inl (Error ''currency: tag is not a recognized currency''))
      else Inl (Error ''currency: tag is not well-formed''))"

definition sample_libs :: libs where
  "sample_libs = \<lparr>currency_ParseISO = sample_ParseISO, strings_ToUpper = map ascii_upper\<rparr>"

text \<open>Bids and requests of the examples.\<close>

definition bid_b1 :: "(unit, unit) PBSOrtbBid_scheme option" where
  "bid_b1 = Some \<lparr>Bid = Some \<lparr>ID = ''b1'', ImpID = ''imp1'', Price = Finite (3 / 2), CrID = ''c1''\<rparr>\<rparr>"

definition bid_b2 :: "(unit, unit) PBSOrtbBid_scheme option" where
  "bid_b2 = Some \<lparr>Bid = Some \<lparr>ID = ''b2'', ImpID = ''imp1'', Price = Finite 0, CrID = ''c2''\<rparr>\<rparr>"

definition bid_nan :: "(unit, unit) PBSOrtbBid_scheme option" where
  "bid_nan = Some \<lparr>Bid = Some \<lparr>ID = ''b3'', ImpID = ''imp1'', Price = NaN, CrID = ''c3''\<rparr>\<rparr>"

definition request_usd :: "openrtb_BidRequest option" where
  "request_usd = Some \<lparr>Cur = [''USD'']\<rparr>"

definition request_eur :: "openrtb_BidRequest option" where
  "request_eur = Some \<lparr>Cur = [''EUR'']\<rparr>"

definition seat :: "(unit, unit) PBSOrtbBid_scheme option list \<Rightarrow> string \<Rightarrow> (unit, unit) PBSOrtbSeatBid option" where
  "seat bids cur = Some \<lparr>Bids = bids, Currency = cur\<rparr>"

section \<open>Auxiliary facts\<close>

subsection \<open>validateBid and the loop over the bids\<close>

lemma validateBid_nil: "validateBid None = Panic NilPointerDereference"
  by (simp add: validateBid_def)

lemma validateBid_non_nil: "\<exists>ok berr. validateBid (Some pb) = Return (ok, berr)"
  by (auto simp add: validateBid_def split: option.split)

lemma validateBid_accepted_rejection:
  "validateBid (Some pb) = Return (accepted (Some pb), rejection (Some pb))"
  using validateBid_non_nil [of pb] by (auto simp add: accepted_def rejection_def)

lemma accepted_iff:
  "accepted bid \<longleftrightarrow>
     (\<exists>pb b. bid = Some pb \<and> Bid pb = Some b \<and> ID b \<noteq> [] \<and> ImpID b \<noteq> [] \<and>
        \<not> float64_le_zero (Price b) \<and> CrID b \<noteq> [])"
  by (auto simp add: accepted_def validateBid_def split: option.splits)

lemma validBids_loop_non_nil:
  "None \<notin> set bids \<Longrightarrow>
   validBids_loop bids validBids errs =
     Return (validBids @ filter accepted bids,
             errs @ map rejection (filter (\<lambda>bid. \<not> accepted bid) bids))"
proof (induction bids arbitrary: validBids errs)
  case Nil
  then show ?case by simp
next
  case (Cons bid rest)
  then obtain pb where pb: "bid = Some pb" by (cases bid) auto
  from Cons have rest: "None \<notin> set rest" by simp
  show ?case
    by (simp add: pb validateBid_accepted_rejection Cons.IH [OF rest])
qed

lemma validBids_loop_nil:
  "None \<in> set bids \<Longrightarrow> validBids_loop bids validBids errs = Panic NilPointerDereference"
proof (induction bids arbitrary: validBids errs)
  case Nil
  then show ?case by simp
next
  case (Cons bid rest)
  show ?case
  proof (cases bid)
    case None
    then show ?thesis by (simp add: validateBid_nil)
  next
    case (Some pb)
    with Cons.prems have "None \<in> set rest" by simp
    then show ?thesis
      by (simp add: Some validateBid_accepted_rejection Cons.IH)
  qed
qed

lemma removeInvalidBids_Bids_accepted:
  assumes "removeInvalidBids L request (Some sb) = Return (Some sb', errs)"
    and "Bids sb \<noteq> []"
  shows "set (Bids sb') \<subseteq> {bid \<in> set (Bids sb). accepted bid}"
proof (cases request)
  case None
  with assms show ?thesis by (simp add: removeInvalidBids_def)
next
  case (Some req)
  show ?thesis
  proof (cases "validateCurrency L (Cur req) (Currency sb)")
    case (Some cerr)
    with assms \<open>request = Some req\<close> show ?thesis
      by (auto simp add: removeInvalidBids_def)
  next
    case None
    show ?thesis
    proof (cases "None \<in> set (Bids sb)")
      case True
      with assms None \<open>request = Some req\<close> show ?thesis
        by (simp add: removeInvalidBids_def validBids_loop_nil)
    next
      case False
      with assms None \<open>request = Some req\<close> show ?thesis
        by (auto simp add: removeInvalidBids_def validBids_loop_non_nil)
    qed
  qed
qed

subsection \<open>The joined list of accepted codes\<close>



subsection \<open>The examples, evaluated\<close>

lemma sample_ParseISO_USD: "currency_ParseISO sample_libs ''USD'' = Inr (Unit ''USD'')"
  by (simp add: sample_libs_def sample_ParseISO_def ascii_upper_def ascii_letter_def)

lemma sample_ToUpper_USD: "strings_ToUpper sample_libs ''USD'' = ''USD''"
  by (simp add: sample_libs_def ascii_upper_def)

lemma validateCurrency_sample_usd_default:
  "validateCurrency sample_libs [''USD''] [] = None"
  by (simp add: validateCurrency_def sample_libs_def sample_ParseISO_def ascii_upper_def
      ascii_letter_def)

lemma validateCurrency_sample_usd_usd:
  "validateCurrency sample_libs [''USD''] ''USD'' = None"
  by (simp add: validateCurrency_def sample_libs_def sample_ParseISO_def ascii_upper_def
      ascii_letter_def)

lemma validateCurrency_sample_eur_usd:
  \<open>validateCurrency sample_libs [''EUR''] ''USD'' =
     Some (Error ''Bid currency is not allowed. Was 'USD', wants: ['EUR']'')\<close>
  by (simp add: validateCurrency_def sample_libs_def sample_ParseISO_def ascii_upper_def
      ascii_letter_def currency_not_allowed_def)

lemma accepted_b1: "accepted bid_b1"
  by (simp add: accepted_def validateBid_def bid_b1_def)

lemma rejected_b2:
  \<open>\<not> accepted bid_b2 \<and>
   rejection bid_b2 = Some (Error (''Bid "b2" does not contain a positive 'price'' @ [CHR 0x27]))\<close>
  by (simp add: accepted_def rejection_def validateBid_def bid_b2_def)

text \<open>
  The first scenario of the specification: the request accepts USD, the seat bid
  declares no currency, the first bid is valid and the second has price 0.
\<close>

lemma removeInvalidBids_sample_b1_b2:
  \<open>removeInvalidBids sample_libs request_usd (seat [bid_b1, bid_b2] []) =
     Return (seat [bid_b1] [],
       [Some (Error (''Bid "b2" does not contain a positive 'price'' @ [CHR 0x27]))])\<close>
proof -
  have \<open>validBids_loop [bid_b1, bid_b2] [] [] =
      Return ([bid_b1],
        [Some (Error (''Bid "b2" does not contain a positive 'price'' @ [CHR 0x27]))])\<close>
    by (simp add: validateBid_def bid_b1_def bid_b2_def)
  then show ?thesis
    by (simp add: removeInvalidBids_def request_usd_def seat_def validateCurrency_sample_usd_default)
qed

section \<open>Surviving bids\<close>

text \<open>
  C1. After \<open>removeInvalidBids\<close> returns, every bid left in the seat bid is claimed to have a
  payload, a non-empty identifier, a non-empty impression identifier, a price strictly
  above 0 and a non-empty creative identifier. The price check of \<open>validateBid\<close> is
  \<^verbatim>\<open>bid.Bid.Price <= 0.0\<close>, which is false for a NaN: a bid whose price is NaN passes
  every check and is kept, although its price is not above 0. The request accepts USD,
  the seat bid declares USD and holds the one bid b3 with a NaN price; the call returns
  the seat bid unchanged and no error.
\<close>

theorem removeInvalidBids_keeps_NaN_price:
  "validateBid bid_nan = Return (True, None) \<and>
   removeInvalidBids sample_libs request_usd (seat [bid_nan] ''USD'') =
     Return (seat [bid_nan] ''USD'', []) \<and>
   \<not> complete_bid bid_nan"
proof -
  have v: "validateBid bid_nan = Return (True, None)"
    by (simp add: validateBid_def bid_nan_def)
  then have "validBids_loop [bid_nan] [] [] = Return ([bid_nan], [])"
    by simp
  moreover have "\<not> complete_bid bid_nan"
    by (simp add: complete_bid_def bid_nan_def)
  ultimately show ?thesis
    using v by (simp add: removeInvalidBids_def request_usd_def seat_def validateCurrency_sample_usd_usd)
qed

text \<open>
  What does hold of every surviving bid, for every request and seat bid: it has a
  payload, its identifier, impression identifier and creative identifier are not empty,
  and its price is not at or below 0; the price is above 0 unless it is a NaN.
\<close>

theorem removeInvalidBids_survivors_checked:
  assumes "removeInvalidBids L request seatBid = Return (Some sb', errs)"
  shows "\<forall>bid \<in> set (Bids sb').
           \<exists>pb b. bid = Some pb \<and> Bid pb = Some b \<and> ID b \<noteq> [] \<and> ImpID b \<noteq> [] \<and>
             \<not> float64_le_zero (Price b) \<and> CrID b \<noteq> [] \<and>
             (Price b \<noteq> NaN \<longrightarrow> float64_gt_zero (Price b))"
proof (cases seatBid)
  case None
  with assms show ?thesis by (simp add: removeInvalidBids_def)
next
  case (Some sb)
  show ?thesis
  proof (cases "Bids sb = []")
    case True
    with assms Some show ?thesis by (auto simp add: removeInvalidBids_def)
  next
    case False
    from assms Some have "removeInvalidBids L request (Some sb) = Return (Some sb', errs)" by simp
    from removeInvalidBids_Bids_accepted [OF this False]
    have acc: "accepted bid" if "bid \<in> set (Bids sb')" for bid using that by auto
    have pos: "float64_gt_zero p" if "\<not> float64_le_zero p" "p \<noteq> NaN" for p
      using that by (cases p) auto
    show ?thesis
    proof
      fix bid assume "bid \<in> set (Bids sb')"
      from acc [OF this] obtain pb b where
        "bid = Some pb" "Bid pb = Some b" "ID b \<noteq> []" "ImpID b \<noteq> []"
        "\<not> float64_le_zero (Price b)" "CrID b \<noteq> []"
        unfolding accepted_iff by blast
      then show "\<exists>pb b. bid = Some pb \<and> Bid pb = Some b \<and> ID b \<noteq> [] \<and> ImpID b \<noteq> [] \<and>
             \<not> float64_le_zero (Price b) \<and> CrID b \<noteq> [] \<and>
             (Price b \<noteq> NaN \<longrightarrow> float64_gt_zero (Price b))"
        using pos by blast
    qed
  qed
qed

theorem removeInvalidBids_survivors_checked_witness:
  "\<exists>pb b. bid_b1 = Some pb \<and> Bid pb = Some b \<and> ID b \<noteq> [] \<and> ImpID b \<noteq> [] \<and>
     float64_gt_zero (Price b) \<and> CrID b \<noteq> []"
proof -
  have \<open>removeInvalidBids sample_libs request_usd (seat [bid_b1, bid_b2] []) =
     Return (Some \<lparr>Bids = [bid_b1], Currency = []\<rparr>,
       [Some (Error (''Bid "b2" does not contain a positive 'price'' @ [CHR 0x27]))])\<close>
    using removeInvalidBids_sample_b1_b2 by (simp add: seat_def)
  from removeInvalidBids_survivors_checked [OF this]
  have "\<exists>pb b. bid_b1 = Some pb \<and> Bid pb = Some b \<and> ID b \<noteq> [] \<and> ImpID b \<noteq> [] \<and>
             \<not> float64_le_zero (Price b) \<and> CrID b \<noteq> [] \<and>
             (Price b \<noteq> NaN \<longrightarrow> float64_gt_zero (Price b))" by simp
  then obtain pb b where *: "bid_b1 = Some pb" "Bid pb = Some b" "ID b \<noteq> []" "ImpID b \<noteq> []"
    "CrID b \<noteq> []" "Price b \<noteq> NaN \<longrightarrow> float64_gt_zero (Price b)" by blast
  from *(1,2) have "Price b \<noteq> NaN" by (auto simp add: bid_b1_def)
  with * show ?thesis by blast
qed

section \<open>The currency gate\<close>

text \<open>
  C2. For a seat bid with a non-empty bid list and a non-nil request, when
  \<open>validateCurrency\<close> on the request's accepted currencies and the seat bid's currency
  fails, \<open>removeInvalidBids\<close> empties the bid list and returns exactly that one error. The
  bids are not looked at: any other non-empty bid list in the same seat bid, valid bids
  or not, nil pointers or not, gives the same result.
\<close>

theorem removeInvalidBids_currency_failure:
  assumes "Bids sb \<noteq> []"
    and "validateCurrency L (Cur req) (Currency sb) = Some cerr"
  shows "removeInvalidBids L (Some req) (Some sb) = Return (Some (sb\<lparr>Bids := []\<rparr>), [Some cerr]) \<and>
         (\<forall>bids. bids \<noteq> [] \<longrightarrow>
            removeInvalidBids L (Some req) (Some (sb\<lparr>Bids := bids\<rparr>)) =
            removeInvalidBids L (Some req) (Some sb))"
  using assms by (simp add: removeInvalidBids_def)

text \<open>
  The second scenario of the specification: the request accepts EUR, the seat bid
  declares USD and holds one valid bid.
\<close>

theorem removeInvalidBids_currency_failure_witness:
  \<open>removeInvalidBids sample_libs request_eur (seat [bid_b1] ''USD'') =
     Return (seat [] ''USD'',
       [Some (Error ''Bid currency is not allowed. Was 'USD', wants: ['EUR']'')])\<close>
proof -
  have h1: "Bids \<lparr>Bids = [bid_b1], Currency = ''USD''\<rparr> \<noteq> []" by simp
  have h2: \<open>validateCurrency sample_libs (Cur \<lparr>Cur = [''EUR'']\<rparr>)
              (Currency \<lparr>Bids = [bid_b1], Currency = ''USD''\<rparr>) =
            Some (Error ''Bid currency is not allowed. Was 'USD', wants: ['EUR']'')\<close>
    by (simp add: validateCurrency_sample_eur_usd)
  from removeInvalidBids_currency_failure [OF h1 h2] show ?thesis
    by (simp add: request_eur_def seat_def)
qed

section \<open>Filtering the bids\<close>

text \<open>
  C3. For a non-nil request and a seat bid with a non-empty bid list whose currency
  check passes: when no element of the list is a nil pointer, the new bid list is the
  input list filtered by what \<open>validateBid\<close> accepts, in the input's order, the returned
  errors are the errors of the rejected bids in the input's order, none of them nil, and
  the two lengths add up to the length of the input. When some element is a nil pointer
  the call panics and produces no list.
\<close>

theorem removeInvalidBids_filters:
  assumes "Bids sb \<noteq> []"
    and "validateCurrency L (Cur req) (Currency sb) = None"
  shows "(None \<notin> set (Bids sb) \<longrightarrow>
            removeInvalidBids L (Some req) (Some sb) =
              Return (Some (sb\<lparr>Bids := filter accepted (Bids sb)\<rparr>),
                      map rejection (filter (\<lambda>bid. \<not> accepted bid) (Bids sb))) \<and>
            length (filter accepted (Bids sb)) +
              length (map rejection (filter (\<lambda>bid. \<not> accepted bid) (Bids sb))) =
              length (Bids sb) \<and>
            list_all (\<lambda>berr. berr \<noteq> None)
              (map rejection (filter (\<lambda>bid. \<not> accepted bid) (Bids sb)))) \<and>
         (None \<in> set (Bids sb) \<longrightarrow>
            removeInvalidBids L (Some req) (Some sb) = Panic NilPointerDereference)"
proof -
  have nonnil: "rejection bid \<noteq> None"
    if "None \<notin> set (Bids sb)" "bid \<in> set (Bids sb)" "\<not> accepted bid" for bid
  proof -
    from that(1,2) have "bid \<noteq> None" by metis
    then obtain pb where "bid = Some pb" by auto
    with that(3) show ?thesis
      by (auto simp add: accepted_def rejection_def validateBid_def split: option.splits if_splits)
  qed
  have ret: "removeInvalidBids L (Some req) (Some sb) =
           Return (Some (sb\<lparr>Bids := filter accepted (Bids sb)\<rparr>),
                   map rejection (filter (\<lambda>bid. \<not> accepted bid) (Bids sb)))"
    if "None \<notin> set (Bids sb)"
    using assms that by (simp add: removeInvalidBids_def validBids_loop_non_nil)
  have len: "length (filter accepted (Bids sb)) +
           length (map rejection (filter (\<lambda>bid. \<not> accepted bid) (Bids sb))) = length (Bids sb)"
    by (simp add: sum_length_filter_compl)
  have all: "list_all (\<lambda>berr. berr \<noteq> None)
      (map rejection (filter (\<lambda>bid. \<not> accepted bid) (Bids sb)))"
    if "None \<notin> set (Bids sb)"
    using nonnil [OF that] by (auto simp add: list_all_iff)
  have pan: "removeInvalidBids L (Some req) (Some sb) = Panic NilPointerDereference"
    if "None \<in> set (Bids sb)"
    using assms that by (simp add: removeInvalidBids_def validBids_loop_nil)
  from ret len all pan show ?thesis by blast
qed

theorem removeInvalidBids_filters_witness:
  \<open>removeInvalidBids sample_libs request_usd (seat [bid_b1, bid_b2] []) =
     Return (seat [bid_b1] [],
       [Some (Error (''Bid "b2" does not contain a positive 'price'' @ [CHR 0x27]))])\<close>
proof -
  have h1: "Bids \<lparr>Bids = [bid_b1, bid_b2], Currency = []\<rparr> \<noteq> []" by simp
  have h2: "validateCurrency sample_libs (Cur \<lparr>Cur = [''USD'']\<rparr>)
              (Currency \<lparr>Bids = [bid_b1, bid_b2], Currency = []\<rparr>) = None"
    by (simp add: validateCurrency_sample_usd_default)
  have h3: "None \<notin> set (Bids \<lparr>Bids = [bid_b1, bid_b2], Currency = []\<rparr>)"
    by (simp add: bid_b1_def bid_b2_def)
  from h3 removeInvalidBids_filters [OF h1 h2] show ?thesis
    by (simp add: request_usd_def seat_def accepted_b1 rejected_b2)
qed

section \<open>The order of the field checks\<close>

text \<open>
  C4. \<open>validateBid\<close> applies five checks in a fixed order and returns the error of the
  first one that fails: no payload, empty identifier, empty impression identifier,
  price at or below 0, empty creative identifier. A bid with an empty identifier gets the
  missing-id error whatever its price and other fields are, and a bid that passes the
  five checks is accepted whatever its other fields hold.
\<close>

theorem validateBid_priority:
  \<open>(Bid pb = None \<longrightarrow>
      validateBid (Some pb) = Return (False, Some (Error ''Empty bid object submitted.''))) \<and>
   (Bid pb = Some b \<and> ID b = [] \<longrightarrow>
      validateBid (Some pb) =
        Return (False, Some (Error (''Bid missing required field 'id'' @ [CHR 0x27])))) \<and>
   (Bid pb = Some b \<and> ID b \<noteq> [] \<and> ImpID b = [] \<longrightarrow>
      validateBid (Some pb) =
        Return (False, Some (Error (''Bid "'' @ ID b @
          ''" missing required field 'impid'' @ [CHR 0x27])))) \<and>
   (Bid pb = Some b \<and> ID b \<noteq> [] \<and> ImpID b \<noteq> [] \<and> float64_le_zero (Price b) \<longrightarrow>
      validateBid (Some pb) =
        Return (False, Some (Error (''Bid "'' @ ID b @
          ''" does not contain a positive 'price'' @ [CHR 0x27])))) \<and>
   (Bid pb = Some b \<and> ID b \<noteq> [] \<and> ImpID b \<noteq> [] \<and> \<not> float64_le_zero (Price b) \<and>
    CrID b = [] \<longrightarrow>
      validateBid (Some pb) =
        Return (False, Some (Error (''Bid "'' @ ID b @ ''" missing creative ID'')))) \<and>
   (Bid pb = Some b \<and> ID b \<noteq> [] \<and> ImpID b \<noteq> [] \<and> \<not> float64_le_zero (Price b) \<and>
    CrID b \<noteq> [] \<longrightarrow>
      validateBid (Some pb) = Return (True, None))\<close>
  by (simp add: validateBid_def)

text \<open>
  A bid with no identifier, no impression identifier, a negative price and no creative
  identifier reports the missing identifier only; one with price 0 and no creative
  identifier reports the price only; one with every field is accepted.
\<close>

theorem validateBid_priority_witness:
  \<open>validateBid (Some \<lparr>Bid = Some \<lparr>ID = [], ImpID = [], Price = Finite (- 1), CrID = []\<rparr>\<rparr>) =
     Return (False, Some (Error (''Bid missing required field 'id'' @ [CHR 0x27]))) \<and>
   validateBid (Some \<lparr>Bid = Some \<lparr>ID = ''b7'', ImpID = ''imp1'', Price = Finite 0, CrID = []\<rparr>\<rparr>) =
     Return (False, Some (Error (''Bid "b7" does not contain a positive 'price'' @ [CHR 0x27]))) \<and>
   validateBid (Some \<lparr>Bid = Some \<lparr>ID = ''b8'', ImpID = ''imp1'', Price = PosInf, CrID = ''c8''\<rparr>\<rparr>) =
     Return (True, None)\<close>
  using validateBid_priority
      [of "\<lparr>Bid = Some \<lparr>ID = [], ImpID = [], Price = Finite (- 1), CrID = []\<rparr>\<rparr>"
          "\<lparr>ID = [], ImpID = [], Price = Finite (- 1), CrID = []\<rparr>"]
    validateBid_priority
      [of "\<lparr>Bid = Some \<lparr>ID = ''b7'', ImpID = ''imp1'', Price = Finite 0, CrID = []\<rparr>\<rparr>"
          "\<lparr>ID = ''b7'', ImpID = ''imp1'', Price = Finite 0, CrID = []\<rparr>"]
    validateBid_priority
      [of "\<lparr>Bid = Some \<lparr>ID = ''b8'', ImpID = ''imp1'', Price = PosInf, CrID = ''c8''\<rparr>\<rparr>"
          "\<lparr>ID = ''b8'', ImpID = ''imp1'', Price = PosInf, CrID = ''c8''\<rparr>"]
  by simp

section \<open>The decorator\<close>

text \<open>
  C5. When the wrapped bidder returns a seat bid and a list of errors, and the sanitizer
  returns on that seat bid, \<open>RequestBid\<close> returns the sanitized seat bid and the wrapped
  call's errors followed by the validation errors, and leaves the request as the
  wrapped call left it. This holds for every context, request, bidder name, adjustment
  factor and conversions.
\<close>

theorem RequestBid_appends_validation_errors:
  assumes "bidder v ctx request name bidAdjustment conversions = Return (request', seatBid, errs)"
    and "removeInvalidBids L request' seatBid = Return (seatBid', validationErrors)"
  shows "RequestBid L v ctx request name bidAdjustment conversions =
           Return (request', seatBid', errs @ validationErrors)"
  using assms by (simp add: RequestBid_def)

theorem RequestBid_appends_validation_errors_witness:
  \<open>RequestBid sample_libs
     (ensureValidBids (\<lambda>ctx request name bidAdjustment conversions.
        Return (request, seat [bid_b1, bid_b2] [], [Some (Error ''adapter: timeout'')])))
     () request_usd ''adform'' (Finite 1) () =
   Return (request_usd, seat [bid_b1] [],
     [Some (Error ''adapter: timeout''),
      Some (Error (''Bid "b2" does not contain a positive 'price'' @ [CHR 0x27]))])\<close>
proof -
  let ?v = "ensureValidBids (\<lambda>ctx request name bidAdjustment conversions.
        Return (request, seat [bid_b1, bid_b2] [], [Some (Error ''adapter: timeout'')]))
        :: (unit, unit, unit, unit, unit, unit) validatedBidder"
  have h1: "bidder ?v () request_usd ''adform'' (Finite 1) () =
      Return (request_usd, seat [bid_b1, bid_b2] [], [Some (Error ''adapter: timeout'')])"
    by (simp add: ensureValidBids_def)
  from RequestBid_appends_validation_errors [OF h1 removeInvalidBids_sample_b1_b2]
  show ?thesis by simp
qed

text \<open>A panic of the wrapped bidder or of the sanitizer is a panic of \<open>RequestBid\<close>.\<close>

lemma RequestBid_panics:
  "bidder v ctx request name bidAdjustment conversions = Panic p \<Longrightarrow>
     RequestBid L v ctx request name bidAdjustment conversions = Panic p"
  "bidder v ctx request name bidAdjustment conversions = Return (request', seatBid, errs) \<Longrightarrow>
   removeInvalidBids L request' seatBid = Panic p \<Longrightarrow>
     RequestBid L v ctx request name bidAdjustment conversions = Panic p"
  by (simp_all add: RequestBid_def)

section \<open>The default currency\<close>

text \<open>
  C6. In \<open>validateCurrency\<close> an empty bid currency stands for USD and an empty list of
  accepted currencies stands for the list holding USD alone. So, with a parser that
  reads USD as the unit USD and an upper-casing that keeps USD, a request with no
  accepted currencies and a seat bid that declares no currency or USD pass the check.
\<close>

theorem validateCurrency_defaults:
  "validateCurrency L requestAllowedCurrencies [] = validateCurrency L requestAllowedCurrencies ''USD'' \<and>
   validateCurrency L [] bidCurrency = validateCurrency L [''USD''] bidCurrency \<and>
   (currency_ParseISO L ''USD'' = Inr (Unit ''USD'') \<and> strings_ToUpper L ''USD'' = ''USD'' \<and>
    Cur req = [] \<and> (Currency sb = [] \<or> Currency sb = ''USD'') \<longrightarrow>
      validateCurrency L (Cur req) (Currency sb) = None)"
  by (auto simp add: validateCurrency_def Let_def)

theorem validateCurrency_defaults_witness:
  "validateCurrency sample_libs (Cur \<lparr>Cur = []\<rparr>) (Currency \<lparr>Bids = [bid_b1], Currency = []\<rparr>) = None \<and>
   validateCurrency sample_libs (Cur \<lparr>Cur = []\<rparr>) (Currency \<lparr>Bids = [bid_b1], Currency = ''USD''\<rparr>) = None"
  using sample_ParseISO_USD sample_ToUpper_USD
    validateCurrency_defaults [of sample_libs "[]" "[]" "\<lparr>Cur = []\<rparr>" "\<lparr>Bids = [bid_b1], Currency = []\<rparr>"]
    validateCurrency_defaults [of sample_libs "[]" "[]" "\<lparr>Cur = []\<rparr>" "\<lparr>Bids = [bid_b1], Currency = ''USD''\<rparr>"]
  by simp

section \<open>The texts of the errors\<close>



section \<open>Nothing to do\<close>

text \<open>
  C8. For a nil seat bid and for a seat bid with an empty bid list, \<open>removeInvalidBids\<close>
  returns no error and leaves the seat bid as it is. Neither the request nor the
  currency is looked at: the request may be nil and the currency may be no currency
  at all.
\<close>

theorem removeInvalidBids_nothing_to_do:
  "removeInvalidBids L request (None :: ('b, 'p, 's) PBSOrtbSeatBid_scheme option) = Return (None, []) \<and>
   (Bids (sb :: ('b, 'p, 's) PBSOrtbSeatBid_scheme) = [] \<longrightarrow>
      removeInvalidBids L request (Some sb) = Return (Some sb, []))"
  by (simp add: removeInvalidBids_def)

theorem removeInvalidBids_nothing_to_do_witness:
  "removeInvalidBids sample_libs (None :: openrtb_BidRequest option)
     (None :: (unit, unit) PBSOrtbSeatBid option) = Return (None, []) \<and>
   removeInvalidBids sample_libs (None :: openrtb_BidRequest option) (seat [] ''no such currency'') =
     Return (seat [] ''no such currency'', []) \<and>
   validateCurrency sample_libs [] ''no such currency'' =
     Some (Error ''currency: tag is not well-formed'')"
proof -
  have "validateCurrency sample_libs [] ''no such currency'' =
     Some (Error ''currency: tag is not well-formed'')"
    by (simp add: validateCurrency_def sample_libs_def sample_ParseISO_def)
  with removeInvalidBids_nothing_to_do [of sample_libs "None :: openrtb_BidRequest option"
      "\<lparr>Bids = [], Currency = ''no such currency''\<rparr> :: (unit, unit) PBSOrtbSeatBid"]
  show ?thesis by (simp add: seat_def)
qed

section \<open>What the sanitizer changes\<close>

text \<open>
  C9. Whenever \<open>removeInvalidBids\<close> returns, the seat bid differs from the one it was given
  in its bid list at most: a nil seat bid stays nil, and otherwise the currency and
  every other field are the same and the new bid list is a subsequence of the old one,
  so each bid in it is one of the input bids, unmodified. The request is only read: the
  function takes it as an argument and hands back the seat bid and the errors alone.
\<close>

theorem removeInvalidBids_frame:
  assumes "removeInvalidBids L request seatBid = Return (seatBid', errs)"
  shows "(seatBid = None \<longrightarrow> seatBid' = None) \<and>
         (\<forall>sb. seatBid = Some sb \<longrightarrow>
            (\<exists>bids. seatBid' = Some (sb\<lparr>Bids := bids\<rparr>) \<and> subseq bids (Bids sb)) \<and>
            (\<exists>sb'. seatBid' = Some sb' \<and> Currency sb' = Currency sb \<and>
                   PBSOrtbSeatBid.more sb' = PBSOrtbSeatBid.more sb \<and>
                   set (Bids sb') \<subseteq> set (Bids sb)))"
proof -
  have main: "\<exists>bids. seatBid' = Some (sb\<lparr>Bids := bids\<rparr>) \<and> subseq bids (Bids sb)"
    if sb: "seatBid = Some sb" for sb
  proof (cases "Bids sb = []")
    case True
    with assms sb have "seatBid' = Some sb" by (simp add: removeInvalidBids_def)
    then have "seatBid' = Some (sb\<lparr>Bids := Bids sb\<rparr>)" by simp
    then show ?thesis by blast
  next
    case False
    show ?thesis
    proof (cases request)
      case None
      with assms sb False show ?thesis by (simp add: removeInvalidBids_def)
    next
      case (Some req)
      show ?thesis
      proof (cases "validateCurrency L (Cur req) (Currency sb)")
        case (Some cerr)
        with assms sb False \<open>request = Some req\<close>
        have "seatBid' = Some (sb\<lparr>Bids := []\<rparr>)" by (simp add: removeInvalidBids_def)
        then show ?thesis by auto
      next
        case None
        show ?thesis
        proof (cases "None \<in> set (Bids sb)")
          case True
          with assms sb False None \<open>request = Some req\<close> show ?thesis
            by (simp add: removeInvalidBids_def validBids_loop_nil)
        next
          case nonil: False
          with assms sb False None \<open>request = Some req\<close>
          have "seatBid' = Some (sb\<lparr>Bids := filter accepted (Bids sb)\<rparr>)"
            by (simp add: removeInvalidBids_def validBids_loop_non_nil)
          then show ?thesis by auto
        qed
      qed
    qed
  qed
  have none: "seatBid = None \<longrightarrow> seatBid' = None"
    using assms by (auto simp add: removeInvalidBids_def)
  have rest: "\<exists>sb'. seatBid' = Some sb' \<and> Currency sb' = Currency sb \<and>
                   PBSOrtbSeatBid.more sb' = PBSOrtbSeatBid.more sb \<and>
                   set (Bids sb') \<subseteq> set (Bids sb)"
    if sb: "seatBid = Some sb" for sb
  proof -
    from main [OF sb] obtain bids where
      b: "seatBid' = Some (sb\<lparr>Bids := bids\<rparr>)" "subseq bids (Bids sb)" by blast
    from b(2) have "set bids \<subseteq> set (Bids sb)" by (auto dest: list_emb_set)
    with b(1) show ?thesis by simp
  qed
  from none main rest show ?thesis by blast
qed

theorem removeInvalidBids_frame_witness:
  "removeInvalidBids sample_libs request_usd (seat [bid_b1, bid_b2] []) \<noteq> Panic NilPointerDereference \<and>
   subseq [bid_b1] [bid_b1, bid_b2]"
proof -
  from removeInvalidBids_frame [OF removeInvalidBids_sample_b1_b2]
  have "\<exists>bids. seat [bid_b1] [] = Some (\<lparr>Bids = [bid_b1, bid_b2], Currency = []\<rparr>\<lparr>Bids := bids\<rparr>) \<and>
          subseq bids (Bids \<lparr>Bids = [bid_b1, bid_b2], Currency = []\<rparr>)"
    by (simp add: seat_def)
  then have "subseq [bid_b1] [bid_b1, bid_b2]" by (simp add: seat_def)
  then show ?thesis by (simp add: removeInvalidBids_sample_b1_b2)
qed

section \<open>Nil bid pointers\<close>

text \<open>
  C10, as the code has it. \<open>validateBid\<close> reads the payload through its argument before
  any check, so it panics on a nil pointer and returns on every other. For a non-nil
  request and a seat bid with a non-empty bid list whose currency check passes,
  \<open>removeInvalidBids\<close> returns exactly when no element of the list is nil, and panics
  when one is: a nil element is never reported as an empty bid object. When the
  currency check fails the elements are not read, and the call returns its one error
  whether or not an element is nil.
\<close>

theorem nil_bid_pointer:
  "validateBid (None :: ('b, 'p) PBSOrtbBid_scheme option) = Panic NilPointerDereference \<and>
   (\<exists>ok berr. validateBid (Some (pb :: ('b, 'p) PBSOrtbBid_scheme)) = Return (ok, berr)) \<and>
   (Bids sb \<noteq> [] \<and> validateCurrency L (Cur req) (Currency sb) = None \<longrightarrow>
      ((\<exists>r. removeInvalidBids L (Some req) (Some sb) = Return r) \<longleftrightarrow> None \<notin> set (Bids sb)) \<and>
      (None \<in> set (Bids sb) \<longrightarrow>
         removeInvalidBids L (Some req) (Some sb) = Panic NilPointerDereference)) \<and>
   (Bids sb \<noteq> [] \<and> validateCurrency L (Cur req) (Currency sb) = Some cerr \<longrightarrow>
      removeInvalidBids L (Some req) (Some sb) = Return (Some (sb\<lparr>Bids := []\<rparr>), [Some cerr]))"
proof -
  have a: "removeInvalidBids L (Some req) (Some sb) = Panic NilPointerDereference"
    if "Bids sb \<noteq> []" "validateCurrency L (Cur req) (Currency sb) = None" "None \<in> set (Bids sb)"
    using that by (simp add: removeInvalidBids_def validBids_loop_nil)
  have b: "\<exists>r. removeInvalidBids L (Some req) (Some sb) = Return r"
    if "Bids sb \<noteq> []" "validateCurrency L (Cur req) (Currency sb) = None" "None \<notin> set (Bids sb)"
    using that by (simp add: removeInvalidBids_def validBids_loop_non_nil)
  have c: "removeInvalidBids L (Some req) (Some sb) = Return (Some (sb\<lparr>Bids := []\<rparr>), [Some cerr])"
    if "Bids sb \<noteq> []" "validateCurrency L (Cur req) (Currency sb) = Some cerr"
    using that by (simp add: removeInvalidBids_def)
  have d: "(\<exists>r. removeInvalidBids L (Some req) (Some sb) = Return r) \<longleftrightarrow> None \<notin> set (Bids sb)"
    if "Bids sb \<noteq> []" "validateCurrency L (Cur req) (Currency sb) = None"
    using a [OF that] b [OF that] by (cases "None \<in> set (Bids sb)") auto
  from a c d validateBid_nil validateBid_non_nil [of pb] show ?thesis by blast
qed

text \<open>With an accepted currency, a valid bid followed by a nil pointer: the call panics.\<close>

theorem nil_bid_pointer_witness:
  "removeInvalidBids sample_libs request_usd (seat [bid_b1, None] ''USD'') = Panic NilPointerDereference"
  using validateCurrency_sample_usd_usd
    nil_bid_pointer [of "\<lparr>Bid = None\<rparr> :: unit PBSOrtbBid"
      "\<lparr>Bids = [bid_b1, None], Currency = ''USD''\<rparr>" sample_libs "\<lparr>Cur = [''USD'']\<rparr>" "Error []"]
  by (simp add: request_usd_def seat_def)

text \<open>
  With a currency the request does not accept, the same bid list with its nil pointer:
  the call returns, with an empty bid list and the currency error.
\<close>

theorem nil_bid_pointer_counterexample:
  \<open>removeInvalidBids sample_libs request_eur (seat [bid_b1, None] ''USD'') =
     Return (seat [] ''USD'',
       [Some (Error ''Bid currency is not allowed. Was 'USD', wants: ['EUR']'')])\<close>
  by (simp add: removeInvalidBids_def request_eur_def seat_def validateCurrency_sample_eur_usd)

end
